theory Spec2Isabelle
  imports Main "HOL-Library.AList"
begin

section \<open>Exceptions\<close>

text \<open>
  Every exception that the server code raises, catches or lets through is a value.
  An \<open>HTTPException\<close> carries its status code and its detail; the two details the
  server builds are kept structured (the f-strings of \<open>validate_and_create\<close> and of
  \<open>create\<close>), since the text of a Python set and of an exception is not fixed by
  the source.
\<close>

datatype detail =
    Missing_inputs "string set"
  | Error_occured exn
and exn =
    GithubException
  | UndefinedError string
  | KeyError string
  | InvalidToken
  | JSONDecodeError
  | ValueError
  | IndexError
  | CalledProcessError string
  | HTTPException nat detail

section \<open>The field resolver\<close>

text \<open>
  \<open>cc_context\<close> is a Python dict built by \<open>json.loads\<close>: an association list in
  declaration order. \<open>user_inputs\<close> is only tested for membership and handed to the
  renderer: a map. The values are \<open>Any\<close> in the source, so both are polymorphic.

  \<open>render_variable\<close> belongs to the cookiecutter library; the resolver takes it as
  the parameter \<open>rv\<close>. It may raise, and the resolver has no handler.

  The \<open>for\<close> loop over the keys is the recursion \<open>next_option_loop\<close>; the lookup
  \<open>context["cookiecutter"][key]\<close> is \<open>map_of\<close>.
\<close>

type_synonym ('v, 'a, 'r) renderer = "'v \<Rightarrow> (string \<rightharpoonup> 'a) \<Rightarrow> exn + 'r"

type_synonym 'r resolution = "string option \<times> 'r option \<times> bool"

fun next_option_loop ::
  "('v, 'a, 'r) renderer \<Rightarrow> (string \<times> 'v) list \<Rightarrow> string list \<Rightarrow> (string \<rightharpoonup> 'a)
     \<Rightarrow> exn + 'r resolution" where
  "next_option_loop rv cc [] user_inputs = Inr (None, None, True)"
| "next_option_loop rv cc (key # keys) user_inputs =
     (if user_inputs key = None then
        (case map_of cc key of
           None \<Rightarrow> Inl (KeyError key)
         | Some raw \<Rightarrow>
             (case rv raw user_inputs of
                Inl e \<Rightarrow> Inl e
              | Inr rendered_value \<Rightarrow> Inr (Some key, Some rendered_value, False)))
      else next_option_loop rv cc keys user_inputs)"

definition get_next_option ::
  "('v, 'a, 'r) renderer \<Rightarrow> (string \<times> 'v) list \<Rightarrow> (string \<rightharpoonup> 'a) \<Rightarrow> exn + 'r resolution" where
  "get_next_option rv cc_context user_inputs =
     next_option_loop rv cc_context (map fst cc_context) user_inputs"

section \<open>The template-expansion pass\<close>

text \<open>
  Modelled from the spec: the template-expansion pass, which the source takes from the
  cookiecutter library (\<open>render_variable\<close> under a \<open>StrictEnvironment\<close>) and which
  is not part of the repository. A default is kept in parsed form: literal text and
  references \<open>cookiecutter.k\<close>. Rendering substitutes the answer to \<open>k\<close> and, the
  environment being strict, raises on a name that has no answer. \<open>render_variable\<close>
  leaves \<open>None\<close> alone and renders lists and nested mappings item by item; the names
  inside a nested mapping are literal text here.
\<close>

datatype segment = Text string | Ref string

type_synonym jinja_template = "segment list"

datatype raw =
    Raw_none
  | Raw_str jinja_template
  | Raw_list "raw list"
  | Raw_dict "(string \<times> raw) list"

datatype rendered =
    Rendered_none
  | Rendered_str string
  | Rendered_list "rendered list"
  | Rendered_dict "(string \<times> rendered) list"

fun render_segment :: "(string \<rightharpoonup> string) \<Rightarrow> segment \<Rightarrow> exn + string" where
  "render_segment cookiecutter_dict (Text s) = Inr s"
| "render_segment cookiecutter_dict (Ref k) =
     (case cookiecutter_dict k of None \<Rightarrow> Inl (UndefinedError k) | Some v \<Rightarrow> Inr v)"

fun render_template :: "(string \<rightharpoonup> string) \<Rightarrow> jinja_template \<Rightarrow> exn + string" where
  "render_template cookiecutter_dict [] = Inr []"
| "render_template cookiecutter_dict (s # ss) =
     (case render_segment cookiecutter_dict s of
        Inl e \<Rightarrow> Inl e
      | Inr x \<Rightarrow>
          (case render_template cookiecutter_dict ss of
             Inl e \<Rightarrow> Inl e
           | Inr y \<Rightarrow> Inr (x @ y)))"

text \<open>The first exception of a comprehension, left to right, ends it.\<close>

fun sequence :: "(exn + 'a) list \<Rightarrow> exn + 'a list" where
  "sequence [] = Inr []"
| "sequence (Inl e # rs) = Inl e"
| "sequence (Inr x # rs) = (case sequence rs of Inl e \<Rightarrow> Inl e | Inr xs \<Rightarrow> Inr (x # xs))"

fun render_variable :: "raw \<Rightarrow> (string \<rightharpoonup> string) \<Rightarrow> exn + rendered" where
  "render_variable Raw_none cookiecutter_dict = Inr Rendered_none"
| "render_variable (Raw_dict kvs) cookiecutter_dict =
     (case sequence (map (\<lambda>(k, v).
              case render_variable v cookiecutter_dict of
                Inl e \<Rightarrow> Inl e
              | Inr r \<Rightarrow> Inr (k, r)) kvs) of
        Inl e \<Rightarrow> Inl e
      | Inr rs \<Rightarrow> Inr (Rendered_dict rs))"
| "render_variable (Raw_list vs) cookiecutter_dict =
     (case sequence (map (\<lambda>v. render_variable v cookiecutter_dict) vs) of
        Inl e \<Rightarrow> Inl e
      | Inr rs \<Rightarrow> Inr (Rendered_list rs))"
| "render_variable (Raw_str t) cookiecutter_dict =
     (case render_template cookiecutter_dict t of
        Inl e \<Rightarrow> Inl e
      | Inr s \<Rightarrow> Inr (Rendered_str s))"

section \<open>The token codec\<close>

text \<open>
  A Python \<open>str\<close> is kept as the bytes of its UTF-8 encoding, so \<open>encode\<close> and
  \<open>decode\<close> leave the characters as they are.
\<close>

type_synonym bytes = string

definition encode :: "string \<Rightarrow> bytes" where
  "encode s = s"

definition decode :: "bytes \<Rightarrow> string" where
  "decode b = b"

text \<open>
  Modelled from the spec: the cipher of the token codec, which the source takes from
  the cryptography library (\<open>Fernet\<close>) and which is not part of the repository. The
  spec has a reversible symmetric encryption under a process-wide key. The layout of a
  token is the one Fernet publishes: a version byte, the time of encryption, the
  initialisation vector drawn for this call, the AES-CBC ciphertext of the padded
  plaintext and an HMAC over all of it, in URL-safe base64. The block cipher, the MAC
  and base64 are parameters; the time and the initialisation vector, which
  \<open>Fernet.encrypt\<close> takes from the clock and from \<open>os.urandom\<close>, are arguments.
\<close>

record crypto =
  urlsafe_b64encode :: "bytes \<Rightarrow> bytes"
  urlsafe_b64decode :: "bytes \<Rightarrow> exn + bytes"
  aes_cbc_encrypt :: "bytes \<Rightarrow> bytes \<Rightarrow> bytes \<Rightarrow> bytes"
  aes_cbc_decrypt :: "bytes \<Rightarrow> bytes \<Rightarrow> bytes \<Rightarrow> exn + bytes"
  hmac_sha256 :: "bytes \<Rightarrow> bytes \<Rightarrow> bytes"

definition pkcs7_pad :: "bytes \<Rightarrow> bytes" where
  "pkcs7_pad data = (let n = 16 - length data mod 16 in data @ replicate n (char_of n))"

definition pkcs7_unpad :: "bytes \<Rightarrow> exn + bytes" where
  "pkcs7_unpad padded =
     (if padded = [] then Inl InvalidToken
      else
        (let n = (of_char (last padded) :: nat) in
         if n = 0 \<or> 16 < n \<or> length padded < n
            \<or> drop (length padded - n) padded \<noteq> replicate n (last padded)
         then Inl InvalidToken
         else Inr (take (length padded - n) padded)))"

text \<open>\<open>struct.pack(">Q", n)\<close>: eight bytes, the most significant first.\<close>

fun big_endian :: "nat \<Rightarrow> nat \<Rightarrow> bytes" where
  "big_endian 0 n = []"
| "big_endian (Suc k) n = big_endian k (n div 256) @ [char_of n]"

definition Fernet :: "crypto \<Rightarrow> bytes \<Rightarrow> exn + bytes \<times> bytes" where
  "Fernet c key =
     (case urlsafe_b64decode c key of
        Inl e \<Rightarrow> Inl ValueError
      | Inr k \<Rightarrow> if length k \<noteq> 32 then Inl ValueError else Inr (take 16 k, drop 16 k))"

definition fernet_encrypt :: "crypto \<Rightarrow> bytes \<times> bytes \<Rightarrow> nat \<Rightarrow> bytes \<Rightarrow> bytes \<Rightarrow> bytes" where
  "fernet_encrypt c f current_time iv data =
     (let ciphertext = aes_cbc_encrypt c (snd f) iv (pkcs7_pad data);
          basic_parts = CHR 0x80 # big_endian 8 current_time @ iv @ ciphertext;
          hmac = hmac_sha256 c (fst f) basic_parts
      in urlsafe_b64encode c (basic_parts @ hmac))"

definition fernet_decrypt :: "crypto \<Rightarrow> bytes \<times> bytes \<Rightarrow> bytes \<Rightarrow> exn + bytes" where
  "fernet_decrypt c f token =
     (case urlsafe_b64decode c token of
        Inl e \<Rightarrow> Inl InvalidToken
      | Inr data \<Rightarrow>
          if data = [] \<or> hd data \<noteq> CHR 0x80 then Inl InvalidToken
          else if length (take 8 (drop 1 data)) \<noteq> 8 then Inl InvalidToken
          else if hmac_sha256 c (fst f) (take (length data - 32) data)
                    \<noteq> drop (length data - 32) data then Inl InvalidToken
          else
            (case aes_cbc_decrypt c (snd f) (take 16 (drop 9 data))
                    (take (length data - 32 - 25) (drop 25 data)) of
               Inl e \<Rightarrow> Inl InvalidToken
             | Inr plaintext_padded \<Rightarrow> pkcs7_unpad plaintext_padded))"

text \<open>
  The two functions of the source. \<open>APP_KEY\<close> comes from the environment, so it is an
  argument, as are the time and the initialisation vector of the call.
\<close>

definition encrypt_token :: "crypto \<Rightarrow> string \<Rightarrow> nat \<Rightarrow> bytes \<Rightarrow> string \<Rightarrow> exn + string" where
  "encrypt_token c APP_KEY current_time iv token =
     (case Fernet c (encode APP_KEY) of
        Inl e \<Rightarrow> Inl e
      | Inr f \<Rightarrow> Inr (decode (fernet_encrypt c f current_time iv (encode token))))"

definition decrypt_token :: "crypto \<Rightarrow> string \<Rightarrow> string \<Rightarrow> exn + string" where
  "decrypt_token c APP_KEY token =
     (case Fernet c (encode APP_KEY) of
        Inl e \<Rightarrow> Inl e
      | Inr f \<Rightarrow>
          (case fernet_decrypt c f (encode token) of
             Inl e \<Rightarrow> Inl e
           | Inr b \<Rightarrow> Inr (decode b)))"

text \<open>
  \<open>decrypt_token\<close> is decorated with \<open>lru_cache(maxsize=1024)\<close>. The cache is a list
  of argument and result, the most recently used first: a hit returns the stored result
  and moves the entry to the front; a miss calls the function, stores a result that was
  returned (never an exception) and drops the entry used longest ago when the cache is
  full.
\<close>

definition lru_cache ::
  "nat \<Rightarrow> ('k \<Rightarrow> exn + 'x) \<Rightarrow> ('k \<times> 'x) list \<Rightarrow> 'k \<Rightarrow> (exn + 'x) \<times> ('k \<times> 'x) list" where
  "lru_cache maxsize f cache x =
     (case map_of cache x of
        Some y \<Rightarrow> (Inr y, (x, y) # filter (\<lambda>p. fst p \<noteq> x) cache)
      | None \<Rightarrow>
          (case f x of
             Inl e \<Rightarrow> (Inl e, cache)
           | Inr y \<Rightarrow> (Inr y, take maxsize ((x, y) # cache))))"

definition decrypt_token_cached ::
  "crypto \<Rightarrow> string \<Rightarrow> (string \<times> string) list \<Rightarrow> string
     \<Rightarrow> (exn + string) \<times> (string \<times> string) list" where
  "decrypt_token_cached c APP_KEY cache token = lru_cache 1024 (decrypt_token c APP_KEY) cache token"

text \<open>A cache is consistent when every entry is what the function returns.\<close>

definition cache_consistent :: "('k \<Rightarrow> exn + 'x) \<Rightarrow> ('k \<times> 'x) list \<Rightarrow> bool" where
  "cache_consistent f cache = list_all (\<lambda>(x, y). f x = Inr y) cache"

section \<open>Configuration, the outside world and effects\<close>

text \<open>
  The user configuration read from the environment when the module is loaded; the two
  application constants the code compares it with.
\<close>

record settings =
  HOST_NAME :: string
  BASE_URL :: string
  APP_KEY :: string

definition GITHUB_URL :: string where
  "GITHUB_URL = ''github.com''"

definition GITHUB_API_URL :: string where
  "GITHUB_API_URL = ''https://api.github.com''"

definition CC_ORIGIN :: string where
  "CC_ORIGIN = ''cc-origin''"

text \<open>
  Every call that leaves the process (a request to GitHub, the template generator, the
  file system, a shell command) is an effect. A run returns its result together with
  the effects it performed, in order. The world decides which effect raises and
  supplies what the calls read.
\<close>

datatype effect =
    Get_repo string
  | Get_contents string string
  | Get_user
  | Get_organization string
  | Create_repo string string
  | Temporary_directory
  | Cleanup_directory
  | Cookiecutter string string
  | Iterdir
  | Shell string

record 'v world =
  raises :: "effect \<Rightarrow> exn option"
  decoded_content :: "string \<Rightarrow> string \<Rightarrow> bytes"
  json_loads :: "bytes \<Rightarrow> exn + (string \<times> 'v) list"
  user_login :: string
  user_name :: string
  user_email :: string
  temp_dir_entries :: "string list"
  shlex_quote :: "string \<Rightarrow> string"

type_synonym 'x io = "(exn + 'x) \<times> effect list"

definition lift :: "exn + 'x \<Rightarrow> 'x io" where
  "lift r = (r, [])"

definition perform :: "'v world \<Rightarrow> effect \<Rightarrow> unit io" where
  "perform w e = (case raises w e of Some x \<Rightarrow> (Inl x, [e]) | None \<Rightarrow> (Inr (), [e]))"

definition and_then :: "'x io \<Rightarrow> ('x \<Rightarrow> 'y io) \<Rightarrow> 'y io" where
  "and_then m f =
     (case m of
        (Inl e, tr) \<Rightarrow> (Inl e, tr)
      | (Inr x, tr) \<Rightarrow> (case f x of (r, tr') \<Rightarrow> (r, tr @ tr')))"

text \<open>\<open>try: ... except GithubException: pass\<close>\<close>

definition except_GithubException_pass :: "unit io \<Rightarrow> unit io" where
  "except_GithubException_pass m =
     (case m of
        (Inl GithubException, tr) \<Rightarrow> (Inr (), tr)
      | (r, tr) \<Rightarrow> (r, tr))"

text \<open>\<open>os.path.join\<close> of \<open>posixpath\<close>.\<close>

fun os_path_join :: "string \<Rightarrow> string list \<Rightarrow> string" where
  "os_path_join path [] = path"
| "os_path_join path (b # p) =
     os_path_join
       (if b \<noteq> [] \<and> hd b = CHR ''/'' then b
        else if path = [] \<or> last path = CHR ''/'' then path @ b
        else path @ ''/'' @ b) p"

section \<open>Common GitHub utilities\<close>

text \<open>
  \<open>get_git_client\<close> builds a client from the host name and the decrypted token; it
  sends nothing. Its \<open>lru_cache\<close> returns what the call would build again.
\<close>

definition get_git_client :: "crypto \<Rightarrow> settings \<Rightarrow> string \<Rightarrow> exn + string \<times> string" where
  "get_git_client c s token =
     (let host_name = (if BASE_URL s = GITHUB_URL then GITHUB_API_URL
                       else ''https://'' @ BASE_URL s @ ''/api/v3'');
          host_name = (if HOST_NAME s \<noteq> [] then HOST_NAME s else host_name)
      in case decrypt_token c (APP_KEY s) token of
           Inl e \<Rightarrow> Inl e
         | Inr token \<Rightarrow> Inr (host_name, token))"

section \<open>The form session\<close>

text \<open>
  Modelled from the spec: \<open>apply_overwrites_to_context\<close>, which the source takes from
  the cookiecutter library and which is not part of the repository. After the spec,
  an override replaces the default of a key of the base document in place, and an
  override for a key that the base document lacks is ignored.
\<close>

fun apply_overwrites_to_context ::
  "(string \<times> 'v) list \<Rightarrow> (string \<times> 'v) list \<Rightarrow> (string \<times> 'v) list" where
  "apply_overwrites_to_context context [] = context"
| "apply_overwrites_to_context context ((variable, overwrite) # overwrite_context) =
     apply_overwrites_to_context
       (if map_of context variable = None then context
        else AList.update variable overwrite context) overwrite_context"

definition get_config ::
  "crypto \<Rightarrow> settings \<Rightarrow> 'v world \<Rightarrow> string \<Rightarrow> string \<Rightarrow> string \<Rightarrow> string
     \<Rightarrow> ((string \<times> 'v) list) io" where
  "get_config c s w repo_name directory user_org token =
     and_then (lift (get_git_client c s token)) (\<lambda>client.
     and_then (perform w (Get_repo repo_name)) (\<lambda>cc_repo.
     let config_file_path =
           (if directory \<noteq> [] then os_path_join directory [''cookiecutter.json'']
            else ''cookiecutter.json'') in
     and_then (perform w (Get_contents repo_name config_file_path)) (\<lambda>_.
     and_then (lift (json_loads w (decoded_content w repo_name config_file_path))) (\<lambda>context.
     case perform w (Get_repo (user_org @ ''/.github'')) of
       (Inl GithubException, tr) \<Rightarrow> (Inr context, tr)
     | (Inl e, tr) \<Rightarrow> (Inl e, tr)
     | (Inr config_repo, tr) \<Rightarrow>
         (let user_config = os_path_join ''cookiecutter'' [repo_name, config_file_path] in
          case and_then (perform w (Get_contents (user_org @ ''/.github'') user_config)) (\<lambda>_.
               lift (json_loads w (decoded_content w (user_org @ ''/.github'') user_config))) of
            (Inl GithubException, tr') \<Rightarrow> (Inr context, tr @ tr')
          | (Inl e, tr') \<Rightarrow> (Inl e, tr @ tr')
          | (Inr user_defaults, tr') \<Rightarrow>
              (Inr (apply_overwrites_to_context context user_defaults), tr @ tr'))))))"

record Template =
  tpl_repo :: string
  tpl_directory :: string

record ('v, 'a, 'r) FormDetails =
  template :: Template
  org :: string
  repo :: string
  cc_context :: "(string \<times> 'v) list"
  token :: string
  user_inputs :: "string \<rightharpoonup> 'a"
  next_key :: "string option"
  next_value :: "'r option"
  done_flag :: bool

definition form ::
  "crypto \<Rightarrow> settings \<Rightarrow> 'v world \<Rightarrow> ('v, 'a, 'r) renderer \<Rightarrow> ('v, 'a, 'r) FormDetails
     \<Rightarrow> (('v, 'a, 'r) FormDetails) io" where
  "form c s w rv details =
     and_then
       (if cc_context details = [] then
          get_config c s w (tpl_repo (template details)) (tpl_directory (template details))
            (org details) (token details)
        else lift (Inr (cc_context details))) (\<lambda>context.
     let details = details\<lparr>cc_context := context\<rparr> in
     case get_next_option rv (cc_context details) (user_inputs details) of
       Inl e \<Rightarrow> (Inl e, [])
     | Inr (k, v, d) \<Rightarrow> (Inr (details\<lparr>next_key := k, next_value := v, done_flag := d\<rparr>), []))"

section \<open>The creation end point\<close>

definition missing_values :: "('v, 'a, 'r) FormDetails \<Rightarrow> string set" where
  "missing_values details =
     set (filter (\<lambda>key. user_inputs details key = None) (map fst (cc_context details)))"

text \<open>
  \<open>with tempfile.TemporaryDirectory(...)\<close>: the directory is removed when the block is
  left, by its end or by an exception.
\<close>

definition with_TemporaryDirectory :: "'v world \<Rightarrow> 'x io \<Rightarrow> 'x io" where
  "with_TemporaryDirectory w body =
     (case perform w Temporary_directory of
        (Inl e, tr) \<Rightarrow> (Inl e, tr)
      | (Inr u, tr) \<Rightarrow> (case body of (r, tr') \<Rightarrow> (r, tr @ tr' @ [Cleanup_directory])))"

definition validate_and_create ::
  "crypto \<Rightarrow> settings \<Rightarrow> 'v world \<Rightarrow> ('v, 'a, 'r) FormDetails \<Rightarrow> unit io" where
  "validate_and_create c s w details =
     (if missing_values details \<noteq> {} then
        (Inl (HTTPException 400 (Missing_inputs (missing_values details))), [])
      else
        with_TemporaryDirectory w
         (and_then (lift (get_git_client c s (token details))) (\<lambda>client.
          and_then (perform w Get_user) (\<lambda>user.
          and_then (except_GithubException_pass
             (and_then (perform w (Get_organization (org details))) (\<lambda>_.
              perform w (Create_repo (org details) (repo details))))) (\<lambda>_.
          and_then (perform w (Cookiecutter
             (''https://'' @ BASE_URL s @ ''/'' @ tpl_repo (template details))
             (tpl_directory (template details)))) (\<lambda>_.
          and_then (perform w Iterdir) (\<lambda>_.
          and_then (lift (case temp_dir_entries w of
                            [] \<Rightarrow> Inl IndexError
                          | output_dir # _ \<Rightarrow> Inr output_dir)) (\<lambda>output_dir.
          and_then (perform w (Shell ''git init'')) (\<lambda>_.
          and_then (perform w (Shell (''git config --local user.name '' @ user_name w))) (\<lambda>_.
          and_then (perform w (Shell (''git config --local user.email '' @ user_email w))) (\<lambda>_.
          and_then (lift (decrypt_token c (APP_KEY s) (token details))) (\<lambda>raw_token.
          let url = ''https://'' @ user_login w @ '':'' @ raw_token @ ''@'' @ BASE_URL s
                      @ ''/'' @ shlex_quote w (org details)
                      @ ''/'' @ shlex_quote w (repo details) in
          and_then (perform w (Shell (''git remote add '' @ CC_ORIGIN @ '' '' @ url))) (\<lambda>_.
          and_then (perform w (Shell ''git add .'')) (\<lambda>_.
          and_then (perform w (Shell (''git commit -m 'Initialize repository with CC: ''
                      @ tpl_repo (template details) @ [CHR 0x27]))) (\<lambda>_.
          perform w (Shell (''git push '' @ CC_ORIGIN @ '' master -f'')))))))))))))))))"

text \<open>
  The end point catches \<open>BaseException\<close>, which every exception of
  \<open>validate_and_create\<close> is, its own \<open>HTTPException\<close> included.
\<close>

definition create ::
  "crypto \<Rightarrow> settings \<Rightarrow> 'v world \<Rightarrow> ('v, 'a, 'r) FormDetails \<Rightarrow> unit io" where
  "create c s w details =
     (case validate_and_create c s w details of
        (Inl error, tr) \<Rightarrow> (Inl (HTTPException 500 (Error_occured error)), tr)
      | (Inr r, tr) \<Rightarrow> (Inr r, tr))"

section \<open>What the properties speak of\<close>



text \<open>
  What the parameters of the cipher must satisfy: base64 decodes what it encoded, the
  block cipher decrypts what it encrypted (for a key and an initialisation vector of 16
  bytes and whole blocks), and a MAC has 32 bytes.
\<close>

definition crypto_laws :: "crypto \<Rightarrow> bool" where
  "crypto_laws c \<longleftrightarrow>
     (\<forall>x. urlsafe_b64decode c (urlsafe_b64encode c x) = Inr x)
   \<and> (\<forall>k iv d. length k = 16 \<and> length iv = 16 \<and> length d mod 16 = 0 \<longrightarrow>
         aes_cbc_decrypt c k iv (aes_cbc_encrypt c k iv d) = Inr d)
   \<and> (\<forall>k d. length (hmac_sha256 c k d) = 32)"

text \<open>A small instance of every parameter, for concrete runs.\<close>

definition example_crypto :: crypto where
  "example_crypto =
     \<lparr>urlsafe_b64encode = (\<lambda>b. b),
      urlsafe_b64decode = Inr,
      aes_cbc_encrypt = (\<lambda>key iv padded. rev padded),
      aes_cbc_decrypt = (\<lambda>key iv ciphertext. Inr (rev ciphertext)),
      hmac_sha256 = (\<lambda>key msg. replicate 32 (CHR 0x00))\<rparr>"

definition example_settings :: settings where
  "example_settings =
     \<lparr>HOST_NAME = [], BASE_URL = ''github.com'',
      APP_KEY = ''0123456789abcdef0123456789abcdef''\<rparr>"

definition example_iv :: bytes where
  "example_iv = replicate 16 (CHR 0x00)"

definition example_token :: string where
  "example_token =
     CHR 0x80 # replicate 8 (CHR 0x00) @ example_iv @ rev (pkcs7_pad ''gho_secret'')
       @ replicate 32 (CHR 0x00)"

definition example_world :: "raw world" where
  "example_world =
     \<lparr>raises = (\<lambda>e. if e = Get_repo ''acme/.github'' then Some GithubException else None),
      decoded_content = (\<lambda>repo_name path. ''{project_name: My App}''),
      json_loads = (\<lambda>b. if b = ''{project_name: My App}''
                         then Inr [(''project_name'', Raw_str [Text ''My App''])]
                         else Inl JSONDecodeError),
      user_login = ''octocat'', user_name = ''Octo'', user_email = ''octo@example.com'',
      temp_dir_entries = [''my-app''],
      shlex_quote = (\<lambda>s. s)\<rparr>"

definition example_details :: "(raw, string, rendered) FormDetails" where
  "example_details =
     \<lparr>template = \<lparr>tpl_repo = ''audreyr/cookiecutter-pypackage'', tpl_directory = []\<rparr>,
      org = ''acme'', repo = ''demo'',
      cc_context = [],
      token = example_token, user_inputs = Map.empty,
      next_key = None, next_value = None, done_flag = False\<rparr>"

text \<open>
  A world for the merge: the template declares \<open>a\<close>, \<open>b\<close> and \<open>c\<close>, the organisation
  overrides \<open>b\<close>, and no request fails.
\<close>

definition example_merge_world :: "string world" where
  "example_merge_world =
     \<lparr>raises = (\<lambda>e. None),
      decoded_content = (\<lambda>repo_name path.
         if repo_name = ''acme/.github'' then ''{b: X}'' else ''{a: 1, b: 2, c: 3}''),
      json_loads = (\<lambda>b.
         if b = ''{b: X}'' then Inr [(''b'', ''X'')]
         else if b = ''{a: 1, b: 2, c: 3}''
           then Inr [(''a'', ''1''), (''b'', ''2''), (''c'', ''3'')]
         else Inl JSONDecodeError),
      user_login = ''octocat'', user_name = ''Octo'', user_email = ''octo@example.com'',
      temp_dir_entries = [''my-app''],
      shlex_quote = (\<lambda>s. s)\<rparr>"

section \<open>Properties\<close>

subsection \<open>The scan\<close>

lemma next_option_loop_skip:
  "\<forall>k \<in> set pre. answers k \<noteq> None \<Longrightarrow>
   next_option_loop rv doc (pre @ keys) answers = next_option_loop rv doc keys answers"
  by (induction pre) auto

lemma next_option_loop_done:
  "next_option_loop rv doc keys answers = Inr (None, None, True)
     \<longleftrightarrow> set keys \<subseteq> dom answers"
  by (induction keys) (auto split: option.splits sum.splits)

lemma next_option_loop_key:
  "next_option_loop rv doc keys answers = Inr (Some k, v, b)
     \<Longrightarrow> k \<in> set keys \<and> answers k = None \<and> \<not> b"
  by (induction keys) (auto split: if_splits option.splits sum.splits)

lemma map_of_first_occurrence:
  "k \<notin> fst ` set pre \<Longrightarrow> map_of (pre @ (k, v) # post) k = Some v"
  by (induction pre) auto

lemma get_next_option_at_first_missing:
  assumes "doc = pre @ (k, raw) # post"
    and "fst ` set pre \<subseteq> dom answers"
    and "k \<notin> dom answers"
  shows "get_next_option rv doc answers =
        (case rv raw answers of
           Inl e \<Rightarrow> Inl e
         | Inr rendered_value \<Rightarrow> Inr (Some k, Some rendered_value, False))"
proof -
  from assms have answered: "\<forall>x \<in> set (map fst pre). answers x \<noteq> None"
    by auto
  from assms have fresh: "k \<notin> fst ` set pre"
    by auto
  from assms have missing: "answers k = None"
    by auto
  have "get_next_option rv doc answers =
      next_option_loop rv doc (map fst pre @ k # map fst post) answers"
    using assms by (simp add: get_next_option_def)
  also have "\<dots> = next_option_loop rv doc (k # map fst post) answers"
    using answered by (rule next_option_loop_skip)
  also have "\<dots> = (case rv raw answers of
           Inl e \<Rightarrow> Inl e
         | Inr rendered_value \<Rightarrow> Inr (Some k, Some rendered_value, False))"
    using assms(1) missing map_of_first_occurrence [OF fresh, of raw post] by simp
  finally show ?thesis .
qed

lemma get_next_option_done:
  "get_next_option rv doc answers = Inr (None, None, True)
     \<longleftrightarrow> fst ` set doc \<subseteq> dom answers"
  by (simp add: get_next_option_def next_option_loop_done)

lemma get_next_option_key:
  "get_next_option rv doc answers = Inr (Some k, v, b)
     \<Longrightarrow> k \<in> fst ` set doc \<and> k \<notin> dom answers"
  using next_option_loop_key [of rv doc "map fst doc" answers k v b]
  by (auto simp: get_next_option_def)

text \<open>
  C1. \<open>get_next_option\<close> returns the first key of the document, in declaration order,
  that \<open>user_inputs\<close> lacks, with what the renderer makes of that key's default (its
  value, or the exception it raises) and \<open>done = False\<close>; and it returns
  \<open>(None, None, True)\<close> exactly when \<open>user_inputs\<close> has every key of the document.
\<close>

theorem get_next_option_first_missing:
  "(doc = pre @ (k, raw) # post \<and> fst ` set pre \<subseteq> dom answers
        \<and> k \<notin> dom answers \<longrightarrow>
      get_next_option rv doc answers =
        (case rv raw answers of
           Inl e \<Rightarrow> Inl e
         | Inr rendered_value \<Rightarrow> Inr (Some k, Some rendered_value, False)))
   \<and> (get_next_option rv doc answers = Inr (None, None, True)
        \<longleftrightarrow> fst ` set doc \<subseteq> dom answers)"
  using get_next_option_at_first_missing [of doc pre k raw post answers rv]
  by (simp add: get_next_option_done)

theorem get_next_option_first_missing_witness:
  "get_next_option render_variable
      [(''project_name'', Raw_str [Text ''My App'']),
       (''project_slug'', Raw_str [Ref ''project_name'', Text ''-repo''])]
      [''project_name'' \<mapsto> ''Foo'']
     = Inr (Some ''project_slug'', Some (Rendered_str ''Foo-repo''), False)
   \<and> get_next_option render_variable
      [(''project_name'', Raw_str [Text ''My App''])]
      [''project_name'' \<mapsto> ''Foo'']
     = Inr (None, None, True)"
  using get_next_option_first_missing
    [of "[(''project_name'', Raw_str [Text ''My App'']),
          (''project_slug'', Raw_str [Ref ''project_name'', Text ''-repo''])]"
        "[(''project_name'', Raw_str [Text ''My App''])]"
        "''project_slug''" "Raw_str [Ref ''project_name'', Text ''-repo'']" "[]"
        "[''project_name'' \<mapsto> ''Foo'']" render_variable]
    get_next_option_first_missing
    [of "[(''project_name'', Raw_str [Text ''My App''])]" "[]"
        "''project_name''" "Raw_str [Text ''My App'']" "[]"
        "[''project_name'' \<mapsto> ''Foo'']" render_variable]
  by simp

subsection \<open>Validation at the creation end point\<close>

lemma missing_values_eq:
  "missing_values d = fst ` set (cc_context d) - dom (user_inputs d)"
  by (auto simp: missing_values_def)

lemma validate_and_create_missing:
  "missing_values d \<noteq> {} \<Longrightarrow>
   validate_and_create c s w d =
     (Inl (HTTPException 400 (Missing_inputs (missing_values d))), [])"
  by (simp add: validate_and_create_def)

lemma create_missing:
  "missing_values d \<noteq> {} \<Longrightarrow>
   create c s w d =
     (Inl (HTTPException 500
        (Error_occured (HTTPException 400 (Missing_inputs (missing_values d))))), [])"
  by (simp add: create_def validate_and_create_missing)

text \<open>
  C2. With an answer missing, \<open>validate_and_create\<close> raises the \<open>HTTPException\<close> with
  status 400 that names the missing keys, before any effect. The handler of \<open>create\<close>
  catches it with every other exception and raises status 500 in its place: for a
  document with the one key \<open>project_name\<close> and no answers, in any world, the end point
  answers 500, with no effect performed.
\<close>

theorem create_reports_500_for_missing_inputs:
  "create c s w
     \<lparr>template = \<lparr>tpl_repo = ''audreyr/cookiecutter-pypackage'', tpl_directory = []\<rparr>,
      org = ''acme'', repo = ''demo'',
      cc_context = [(''project_name'', Raw_str [Text ''My App''])],
      token = ''t'', user_inputs = (Map.empty :: string \<rightharpoonup> string),
      next_key = None, next_value = (None :: rendered option), done_flag = False\<rparr>
   = (Inl (HTTPException 500
        (Error_occured (HTTPException 400 (Missing_inputs {''project_name''})))), [])"
  by (simp add: create_def validate_and_create_def missing_values_def)

text \<open>
  C10, as stated, fails: an answer set with a key that the document lacks is complete
  for the resolver and passes the validation of the creation end point.
\<close>

theorem completed_answers_counterexample:
  "get_next_option render_variable
      [(''project_name'', Raw_str [Text ''My App''])]
      [''project_name'' \<mapsto> ''Foo'', ''extra'' \<mapsto> ''x''] = Inr (None, None, True)
   \<and> missing_values
      \<lparr>template = \<lparr>tpl_repo = ''audreyr/cookiecutter-pypackage'', tpl_directory = []\<rparr>,
       org = ''acme'', repo = ''demo'',
       cc_context = [(''project_name'', Raw_str [Text ''My App''])],
       token = ''t'', user_inputs = [''project_name'' \<mapsto> ''Foo'', ''extra'' \<mapsto> ''x''],
       next_key = None, next_value = (None :: rendered option), done_flag = True\<rparr> = {}
   \<and> dom [''project_name'' \<mapsto> ''Foo'', ''extra'' \<mapsto> ''x'']
       \<noteq> fst ` set [(''project_name'', Raw_str [Text ''My App''])]"
  by (simp add: get_next_option_def missing_values_def)

text \<open>
  C10, amended. The resolver reports \<open>done\<close> exactly when the validation of the
  creation end point finds nothing missing, and that is exactly when the answer set has
  every key of the document. The two key sets are then equal if the answer set has no
  key from outside the document, which an answer to the key that the resolver returned
  preserves.
\<close>

theorem completed_answers_cover_document:
  "(get_next_option rv (cc_context d) (user_inputs d) = Inr (None, None, True)
      \<longleftrightarrow> missing_values d = {})
   \<and> (missing_values d = {} \<longleftrightarrow> fst ` set (cc_context d) \<subseteq> dom (user_inputs d))
   \<and> (missing_values d = {} \<and> dom (user_inputs d) \<subseteq> fst ` set (cc_context d)
        \<longrightarrow> dom (user_inputs d) = fst ` set (cc_context d))
   \<and> (get_next_option rv (cc_context d) (user_inputs d) = Inr (Some k, v, b)
        \<and> dom (user_inputs d) \<subseteq> fst ` set (cc_context d)
        \<longrightarrow> k \<notin> dom (user_inputs d)
          \<and> dom ((user_inputs d)(k \<mapsto> a)) \<subseteq> fst ` set (cc_context d))"
  using get_next_option_key [of rv "cc_context d" "user_inputs d" k v b]
  by (auto simp: get_next_option_done missing_values_eq)

theorem completed_answers_cover_document_witness:
  "missing_values
      \<lparr>template = \<lparr>tpl_repo = ''audreyr/cookiecutter-pypackage'', tpl_directory = []\<rparr>,
       org = ''acme'', repo = ''demo'',
       cc_context = [(''project_name'', Raw_str [Text ''My App''])],
       token = ''t'', user_inputs = [''project_name'' \<mapsto> ''Foo''],
       next_key = None, next_value = (None :: rendered option), done_flag = True\<rparr> = {}
   \<and> get_next_option render_variable [(''project_name'', Raw_str [Text ''My App''])]
        [''project_name'' \<mapsto> ''Foo''] = Inr (None, None, True)
   \<and> dom [''project_name'' \<mapsto> ''Foo'']
        = fst ` set [(''project_name'', Raw_str [Text ''My App''])]
   \<and> get_next_option render_variable [(''project_name'', Raw_str [Text ''My App''])]
        Map.empty = Inr (Some ''project_name'', Some (Rendered_str ''My App''), False)
   \<and> dom (Map.empty(''project_name'' \<mapsto> ''Foo''))
        \<subseteq> fst ` set [(''project_name'', Raw_str [Text ''My App''])]"
  using completed_answers_cover_document
    [of render_variable
        "\<lparr>template = \<lparr>tpl_repo = ''audreyr/cookiecutter-pypackage'', tpl_directory = []\<rparr>,
          org = ''acme'', repo = ''demo'',
          cc_context = [(''project_name'', Raw_str [Text ''My App''])],
          token = ''t'', user_inputs = [''project_name'' \<mapsto> ''Foo''],
          next_key = None, next_value = (None :: rendered option), done_flag = True\<rparr>"
        "''project_name''" "Some (Rendered_str ''My App'')" False "''Foo''"]
    completed_answers_cover_document
    [of render_variable
        "\<lparr>template = \<lparr>tpl_repo = ''audreyr/cookiecutter-pypackage'', tpl_directory = []\<rparr>,
          org = ''acme'', repo = ''demo'',
          cc_context = [(''project_name'', Raw_str [Text ''My App''])],
          token = ''t'', user_inputs = Map.empty,
          next_key = None, next_value = (None :: rendered option), done_flag = False\<rparr>"
        "''project_name''" "Some (Rendered_str ''My App'')" False "''Foo''"]
  by (simp add: get_next_option_def missing_values_def)

subsection \<open>Rendering a default\<close>



lemma form_cached:
  "cc_context details \<noteq> [] \<Longrightarrow>
   form c s w rv details =
     (case get_next_option rv (cc_context details) (user_inputs details) of
        Inl e \<Rightarrow> (Inl e, [])
      | Inr (k, v, d) \<Rightarrow>
          (Inr (details\<lparr>next_key := k, next_value := v, done_flag := d\<rparr>), []))"
  by (simp add: form_def and_then_def lift_def split: sum.splits prod.splits)



text \<open>
  C4, as stated, fails: a key with a leading underscore and a nested mapping for its
  value is what the resolver returns for a session without answers.
\<close>

theorem nested_mapping_counterexample:
  "get_next_option render_variable
      [(''_meta'', Raw_dict [(''owner'', Raw_str [Text ''ops''])]),
       (''project_name'', Raw_str [Text ''My App''])]
      Map.empty
     = Inr (Some ''_meta'', Some (Rendered_dict [(''owner'', Rendered_str ''ops'')]), False)"
  by (simp add: get_next_option_def)

text \<open>
  C4, amended. The resolver treats a key whose value is a nested mapping like any other
  key: when it is the first key without an answer and its mapping renders, it is the
  key returned, with the rendered mapping.
\<close>

theorem nested_mapping_key_is_prompted:
  "doc = pre @ (k, Raw_dict kvs) # post \<and> fst ` set pre \<subseteq> dom answers \<and> k \<notin> dom answers
     \<and> render_variable (Raw_dict kvs) answers = Inr r
   \<longrightarrow> get_next_option render_variable doc answers = Inr (Some k, Some r, False)"
  using get_next_option_at_first_missing [of doc pre k "Raw_dict kvs" post answers render_variable]
  by auto

theorem nested_mapping_key_is_prompted_witness:
  "render_variable (Raw_dict [(''owner'', Raw_str [Ref ''project_name''])])
       [''project_name'' \<mapsto> ''Foo'']
     = Inr (Rendered_dict [(''owner'', Rendered_str ''Foo'')])
   \<and> get_next_option render_variable
      [(''project_name'', Raw_str [Text ''My App'']),
       (''_meta'', Raw_dict [(''owner'', Raw_str [Ref ''project_name''])])]
      [''project_name'' \<mapsto> ''Foo'']
     = Inr (Some ''_meta'', Some (Rendered_dict [(''owner'', Rendered_str ''Foo'')]), False)"
  using nested_mapping_key_is_prompted
    [of "[(''project_name'', Raw_str [Text ''My App'']),
          (''_meta'', Raw_dict [(''owner'', Raw_str [Ref ''project_name''])])]"
        "[(''project_name'', Raw_str [Text ''My App''])]"
        "''_meta''" "[(''owner'', Raw_str [Ref ''project_name''])]" "[]"
        "[''project_name'' \<mapsto> ''Foo'']"
        "Rendered_dict [(''owner'', Rendered_str ''Foo'')]"]
  by simp

text \<open>
  C8. When the session carries a document, the form end point performs no effect at
  all, so no fetch: its result is the resolver's on the document and the answers of the
  session.
\<close>

theorem form_cached_context_is_local:
  "cc_context details \<noteq> [] \<Longrightarrow>
   snd (form c s w rv details) = []
   \<and> fst (form c s w rv details) =
       (case get_next_option rv (cc_context details) (user_inputs details) of
          Inl e \<Rightarrow> Inl e
        | Inr (k, v, d) \<Rightarrow> Inr (details\<lparr>next_key := k, next_value := v, done_flag := d\<rparr>))"
  by (simp add: form_cached split: sum.splits prod.splits)

theorem form_cached_context_is_local_witness:
  "snd (form example_crypto example_settings example_world render_variable
      (example_details\<lparr>cc_context := [(''project_name'', Raw_str [Text ''My App''])]\<rparr>)) = []
   \<and> fst (form example_crypto example_settings example_world render_variable
      (example_details\<lparr>cc_context := [(''project_name'', Raw_str [Text ''My App''])]\<rparr>))
     = Inr (example_details\<lparr>cc_context := [(''project_name'', Raw_str [Text ''My App''])],
              next_key := Some ''project_name'',
              next_value := Some (Rendered_str ''My App''), done_flag := False\<rparr>)"
  using form_cached_context_is_local
    [of "example_details\<lparr>cc_context := [(''project_name'', Raw_str [Text ''My App''])]\<rparr>"
        example_crypto example_settings example_world render_variable]
  by (simp add: example_details_def get_next_option_def)

subsection \<open>The token codec\<close>

lemma pkcs7_pad_length: "length (pkcs7_pad data) mod 16 = 0"
proof -
  have "(length data + (16 - length data mod 16)) mod 16 = 0"
    by presburger
  then show ?thesis
    by (simp add: pkcs7_pad_def Let_def)
qed

lemma pkcs7_unpad_pad: "pkcs7_unpad (pkcs7_pad data) = Inr data"
proof -
  define n where "n = 16 - length data mod 16"
  have n: "0 < n" "n \<le> 16"
    by (simp_all add: n_def)
  have p: "pkcs7_pad data = data @ replicate n (char_of n)"
    by (simp add: pkcs7_pad_def n_def Let_def)
  have l: "last (data @ replicate n (char_of n)) = char_of n"
    using n by (cases n) simp_all
  have v: "(of_char (char_of n) :: nat) = n"
    using n by simp
  show ?thesis
    unfolding p pkcs7_unpad_def l v using n by (simp add: Let_def)
qed

lemma length_big_endian: "length (big_endian k n) = k"
  by (induction k arbitrary: n) simp_all

lemma fernet_decrypt_encrypt:
  assumes "crypto_laws c" and "length (snd f) = 16" and "length iv = 16"
  shows "fernet_decrypt c f (fernet_encrypt c f current_time iv data) = Inr data"
proof -
  define ct where "ct = aes_cbc_encrypt c (snd f) iv (pkcs7_pad data)"
  define basic where "basic = CHR 0x80 # big_endian 8 current_time @ iv @ ct"
  define mac where "mac = hmac_sha256 c (fst f) basic"
  have enc: "fernet_encrypt c f current_time iv data = urlsafe_b64encode c (basic @ mac)"
    by (simp add: fernet_encrypt_def Let_def ct_def basic_def mac_def)
  have b64: "urlsafe_b64decode c (urlsafe_b64encode c (basic @ mac)) = Inr (basic @ mac)"
    using assms(1) by (simp add: crypto_laws_def)
  have lmac: "length mac = 32"
    using assms(1) by (simp add: crypto_laws_def mac_def)
  have lbasic: "length basic = 25 + length ct"
    using assms(3) by (simp add: basic_def length_big_endian)
  have aes: "aes_cbc_decrypt c (snd f) iv ct = Inr (pkcs7_pad data)"
    using assms by (simp add: crypto_laws_def ct_def pkcs7_pad_length)
  have s1: "take (length (basic @ mac) - 32) (basic @ mac) = basic"
    using lmac by simp
  have s2: "drop (length (basic @ mac) - 32) (basic @ mac) = mac"
    using lmac by simp
  have s3: "take 16 (drop 9 (basic @ mac)) = iv"
    using assms(3) by (simp add: basic_def length_big_endian)
  have s4: "take (length (basic @ mac) - 32 - 25) (drop 25 (basic @ mac)) = ct"
    using lmac assms(3) by (simp add: basic_def length_big_endian)
  have s5: "hd (basic @ mac) = CHR 0x80" "basic @ mac \<noteq> []"
    by (simp_all add: basic_def)
  have s6: "length (take 8 (drop 1 (basic @ mac))) = 8"
    using lbasic by simp
  show ?thesis
    unfolding enc fernet_decrypt_def b64
    by (simp only: sum.case s1 s2 s3 s4 s5 s6 aes mac_def [symmetric] pkcs7_unpad_pad
        simp_thms if_False)
qed

lemma Fernet_key_lengths:
  "Fernet c key = Inr f \<Longrightarrow> length (fst f) = 16 \<and> length (snd f) = 16"
  by (auto simp: Fernet_def split: sum.splits if_splits)

lemma decrypt_token_encrypt_token:
  assumes "crypto_laws c" and "Fernet c (encode key) = Inr f" and "length iv = 16"
  shows "encrypt_token c key current_time iv t
            = Inr (decode (fernet_encrypt c f current_time iv (encode t)))"
    and "decrypt_token c key (decode (fernet_encrypt c f current_time iv (encode t))) = Inr t"
  using assms Fernet_key_lengths [OF assms(2)]
  by (simp_all add: encrypt_token_def decrypt_token_def encode_def decode_def
      fernet_decrypt_encrypt)

lemma lru_cache_result:
  "cache_consistent f cache \<Longrightarrow> fst (lru_cache maxsize f cache x) = f x"
proof (cases "map_of cache x")
  case None
  then show ?thesis
    by (simp add: lru_cache_def split: sum.splits)
next
  case (Some y)
  assume "cache_consistent f cache"
  moreover from Some have "(x, y) \<in> set cache"
    by (rule map_of_SomeD)
  ultimately have "f x = Inr y"
    by (auto simp: cache_consistent_def list_all_iff)
  with Some show ?thesis
    by (simp add: lru_cache_def)
qed

lemma lru_cache_consistent:
  assumes "cache_consistent f cache"
  shows "cache_consistent f (snd (lru_cache maxsize f cache x))"
proof (cases "map_of cache x")
  case None
  have "set (take maxsize ((x, y) # cache)) \<subseteq> insert (x, y) (set cache)" for y
    using set_take_subset [of maxsize "(x, y) # cache"] by simp
  with assms None show ?thesis
    by (auto simp: lru_cache_def cache_consistent_def list_all_iff split: sum.splits)
next
  case (Some y)
  from Some have "(x, y) \<in> set cache"
    by (rule map_of_SomeD)
  with assms Some show ?thesis
    by (auto simp: lru_cache_def cache_consistent_def list_all_iff)
qed

text \<open>
  C5. Under a valid key, with parameters that satisfy their laws, \<open>encrypt_token\<close>
  returns a token (whatever the time and the initialisation vector of the call) that
  \<open>decrypt_token\<close> turns back into the input, also through its cache.
\<close>

theorem decrypt_token_inverts_encrypt_token:
  assumes "crypto_laws c" and "Fernet c (encode key) = Inr f" and "length iv = 16"
  shows "\<exists>encrypted.
           encrypt_token c key current_time iv t = Inr encrypted
         \<and> decrypt_token c key encrypted = Inr t
         \<and> (cache_consistent (decrypt_token c key) cache \<longrightarrow>
              fst (decrypt_token_cached c key cache encrypted) = Inr t)"
  using decrypt_token_encrypt_token [OF assms, of current_time t]
  by (simp add: decrypt_token_cached_def lru_cache_result)

lemma example_crypto_laws: "crypto_laws example_crypto"
  by (simp add: crypto_laws_def example_crypto_def)

lemma example_Fernet:
  "Fernet example_crypto (encode (APP_KEY example_settings))
     = Inr (''0123456789abcdef'', ''0123456789abcdef'')"
  by (simp add: Fernet_def example_crypto_def example_settings_def encode_def)

lemma big_endian_0: "big_endian k 0 = replicate k (CHR 0x00)"
  by (induction k) (simp_all add: replicate_append_same char_of_def)

lemma example_encrypt_token:
  "encrypt_token example_crypto (APP_KEY example_settings) 0 example_iv ''gho_secret''
     = Inr example_token"
  unfolding encrypt_token_def example_Fernet
  by (simp add: fernet_encrypt_def Let_def encode_def decode_def example_token_def
      example_crypto_def big_endian_0)

lemma example_decrypt_token:
  "decrypt_token example_crypto (APP_KEY example_settings) example_token = Inr ''gho_secret''"
proof -
  have iv: "length example_iv = 16"
    by (simp add: example_iv_def)
  show ?thesis
    using decrypt_token_encrypt_token [OF example_crypto_laws example_Fernet iv, of 0 "''gho_secret''"]
      example_encrypt_token
    by simp
qed

lemma example_get_git_client:
  "get_git_client example_crypto example_settings example_token
     = Inr (''https://api.github.com'', ''gho_secret'')"
  using example_decrypt_token
  by (simp add: get_git_client_def Let_def GITHUB_URL_def GITHUB_API_URL_def)
    (simp add: example_settings_def)

theorem decrypt_token_inverts_encrypt_token_witness:
  "crypto_laws example_crypto
   \<and> encrypt_token example_crypto (APP_KEY example_settings) 0 example_iv ''gho_secret''
       = Inr example_token
   \<and> decrypt_token example_crypto (APP_KEY example_settings) example_token = Inr ''gho_secret''
   \<and> fst (decrypt_token_cached example_crypto (APP_KEY example_settings) [] example_token)
       = Inr ''gho_secret''"
proof -
  have iv: "length example_iv = 16"
    by (simp add: example_iv_def)
  show ?thesis
    using decrypt_token_inverts_encrypt_token
        [OF example_crypto_laws example_Fernet iv, of 0 "''gho_secret''" "[]"]
      example_crypto_laws example_encrypt_token
    by (auto simp: cache_consistent_def)
qed

lemma base_256_digits:
  assumes "b < 256" and "d < 256" and "256 * a + b = 256 * c + d"
  shows "a = c \<and> b = (d :: nat)"
proof -
  have "(256 * a + b) div 256 = a" "(256 * c + d) div 256 = c"
    using assms(1,2) by simp_all
  with assms(3) have "a = c"
    by simp
  with assms(3) show ?thesis
    by simp
qed

lemma timestamp_mod:
  "(x::nat) < 2 ^ 64 \<Longrightarrow> y < 2 ^ 64 \<Longrightarrow> x mod 256 ^ 8 = y mod 256 ^ 8 \<Longrightarrow> x = y"
proof -
  have e: "(256::nat) ^ 8 = 2 ^ 64"
    by simp
  assume "x < 2 ^ 64" "y < 2 ^ 64" "x mod 256 ^ 8 = y mod 256 ^ 8"
  then show "x = y"
    unfolding e by (simp only: mod_less)
qed

lemma append_eq_same_length:
  "length a = length b \<Longrightarrow> a @ x = b @ y \<Longrightarrow> a = b \<and> x = y"
  by simp

lemma big_endian_eq_iff:
  "big_endian k n = big_endian k m \<longleftrightarrow> n mod 256 ^ k = m mod 256 ^ k"
proof (induction k arbitrary: n m)
  case 0
  show ?case by simp
next
  case (Suc k)
  have split: "x mod 256 ^ Suc k = 256 * (x div 256 mod 256 ^ k) + x mod 256" for x :: nat
    by (simp add: mod_mult2_eq)
  have "big_endian (Suc k) n = big_endian (Suc k) m
      \<longleftrightarrow> big_endian k (n div 256) = big_endian k (m div 256) \<and> n mod 256 = m mod 256"
    by simp
  also have "\<dots> \<longleftrightarrow> n div 256 mod 256 ^ k = m div 256 mod 256 ^ k \<and> n mod 256 = m mod 256"
    by (simp add: Suc.IH)
  also have "\<dots> \<longleftrightarrow> n mod 256 ^ Suc k = m mod 256 ^ Suc k"
  proof
    assume "n div 256 mod 256 ^ k = m div 256 mod 256 ^ k \<and> n mod 256 = m mod 256"
    then show "n mod 256 ^ Suc k = m mod 256 ^ Suc k"
      by (simp only: split)
  next
    assume e: "n mod 256 ^ Suc k = m mod 256 ^ Suc k"
    have a: "n mod 256 < 256" "m mod 256 < 256"
      by simp_all
    from e have "256 * (n div 256 mod 256 ^ k) + n mod 256
        = 256 * (m div 256 mod 256 ^ k) + m mod 256"
      by (simp only: split)
    with a show "n div 256 mod 256 ^ k = m div 256 mod 256 ^ k \<and> n mod 256 = m mod 256"
      by (intro base_256_digits)
  qed
  finally show ?case .
qed

lemma b64encode_inj:
  "crypto_laws c \<Longrightarrow> urlsafe_b64encode c x = urlsafe_b64encode c y \<Longrightarrow> x = y"
proof -
  assume laws: "crypto_laws c" and e: "urlsafe_b64encode c x = urlsafe_b64encode c y"
  have "Inr x = urlsafe_b64decode c (urlsafe_b64encode c x)"
    using laws by (simp add: crypto_laws_def)
  also have "\<dots> = urlsafe_b64decode c (urlsafe_b64encode c y)"
    by (simp only: e)
  also have "\<dots> = Inr y"
    using laws by (simp add: crypto_laws_def)
  finally show "x = y" by simp
qed

text \<open>
  C6, as stated, fails: two calls with the same token and key that draw different
  initialisation vectors return different encrypted tokens.
\<close>

theorem encrypt_token_not_deterministic:
  "encrypt_token example_crypto (APP_KEY example_settings) 0 (replicate 16 (CHR 0x00)) ''gho_secret''
     \<noteq> encrypt_token example_crypto (APP_KEY example_settings) 0 (replicate 16 (CHR 0x01)) ''gho_secret''"
  unfolding encrypt_token_def example_Fernet
  by (simp add: fernet_encrypt_def Let_def encode_def decode_def example_crypto_def)

text \<open>
  C6, amended. The encrypted token is a function of the raw token, the key, the time of
  the call and the initialisation vector drawn for it: two calls return the same
  encrypted token exactly when their times and their vectors are the same.
\<close>

theorem encrypt_token_depends_on_time_and_iv:
  assumes "crypto_laws c" and "Fernet c (encode key) = Inr f"
    and "length iv = 16" and "length iv' = 16"
    and "current_time < 2 ^ 64" and "current_time' < 2 ^ 64"
  shows "encrypt_token c key current_time iv t = encrypt_token c key current_time' iv' t
           \<longleftrightarrow> current_time = current_time' \<and> iv = iv'"
proof
  assume "current_time = current_time' \<and> iv = iv'"
  then show "encrypt_token c key current_time iv t = encrypt_token c key current_time' iv' t"
    by simp
next
  define ct where "ct = aes_cbc_encrypt c (snd f) iv (pkcs7_pad (encode t))"
  define ct' where "ct' = aes_cbc_encrypt c (snd f) iv' (pkcs7_pad (encode t))"
  define mac where "mac = hmac_sha256 c (fst f) (CHR 0x80 # big_endian 8 current_time @ iv @ ct)"
  define mac' where
    "mac' = hmac_sha256 c (fst f) (CHR 0x80 # big_endian 8 current_time' @ iv' @ ct')"
  have tok: "encrypt_token c key current_time iv t
      = Inr (urlsafe_b64encode c ((CHR 0x80 # big_endian 8 current_time @ iv @ ct) @ mac))"
    using assms(2)
    by (simp add: encrypt_token_def fernet_encrypt_def Let_def decode_def ct_def mac_def)
  have tok': "encrypt_token c key current_time' iv' t
      = Inr (urlsafe_b64encode c ((CHR 0x80 # big_endian 8 current_time' @ iv' @ ct') @ mac'))"
    using assms(2)
    by (simp add: encrypt_token_def fernet_encrypt_def Let_def decode_def ct'_def mac'_def)
  assume "encrypt_token c key current_time iv t = encrypt_token c key current_time' iv' t"
  then have "urlsafe_b64encode c ((CHR 0x80 # big_endian 8 current_time @ iv @ ct) @ mac)
      = urlsafe_b64encode c ((CHR 0x80 # big_endian 8 current_time' @ iv' @ ct') @ mac')"
    by (simp only: tok tok' sum.inject)
  then have "(CHR 0x80 # big_endian 8 current_time @ iv @ ct) @ mac
      = (CHR 0x80 # big_endian 8 current_time' @ iv' @ ct') @ mac'"
    by (rule b64encode_inj [OF assms(1)])
  then have "big_endian 8 current_time @ (iv @ ct @ mac)
      = big_endian 8 current_time' @ (iv' @ ct' @ mac')"
    by simp
  with length_big_endian [of 8 current_time] length_big_endian [of 8 current_time']
  have be: "big_endian 8 current_time = big_endian 8 current_time' \<and> iv @ ct @ mac = iv' @ ct' @ mac'"
    by (intro append_eq_same_length) simp_all
  then have "iv @ (ct @ mac) = iv' @ (ct' @ mac')"
    by simp
  with assms(3,4) have "iv = iv' \<and> ct @ mac = ct' @ mac'"
    by (intro append_eq_same_length) simp_all
  moreover from be have m: "current_time mod 256 ^ 8 = current_time' mod 256 ^ 8"
    by (simp only: big_endian_eq_iff)
  have "current_time = current_time'"
    using assms(5) assms(6) m by (rule timestamp_mod)
  ultimately show "current_time = current_time' \<and> iv = iv'"
    by simp
qed

theorem encrypt_token_depends_on_time_and_iv_witness:
  "encrypt_token example_crypto (APP_KEY example_settings) 0 example_iv ''gho_secret''
     \<noteq> encrypt_token example_crypto (APP_KEY example_settings) 1 example_iv ''gho_secret''
   \<and> encrypt_token example_crypto (APP_KEY example_settings) 0 example_iv ''gho_secret''
     \<noteq> encrypt_token example_crypto (APP_KEY example_settings) 0 (replicate 16 (CHR 0x01))
         ''gho_secret''"
proof -
  have iv: "length example_iv = 16" "length (replicate 16 (CHR 0x01)) = 16"
    by (simp_all add: example_iv_def)
  have t: "(0::nat) < 2 ^ 64" "(1::nat) < 2 ^ 64"
    by simp_all
  have d: "example_iv \<noteq> replicate 16 (CHR 0x01)"
    by (simp add: example_iv_def)
  show ?thesis
    using encrypt_token_depends_on_time_and_iv
        [OF example_crypto_laws example_Fernet iv(1) iv(1) t(1) t(2), of "''gho_secret''"]
      encrypt_token_depends_on_time_and_iv
        [OF example_crypto_laws example_Fernet iv(1) iv(2) t(1) t(1), of "''gho_secret''"]
      d
    by simp
qed

subsection \<open>Fetching the configuration\<close>

lemma perform_ok: "raises w e = None \<Longrightarrow> perform w e = (Inr (), [e])"
  by (simp add: perform_def)

lemma perform_raises: "raises w e = Some x \<Longrightarrow> perform w e = (Inl x, [e])"
  by (simp add: perform_def)

lemma get_config_no_config_repo:
  assumes "get_git_client c s tok = Inr client"
    and "config_file_path =
          (if directory \<noteq> [] then os_path_join directory [''cookiecutter.json'']
           else ''cookiecutter.json'')"
    and "raises w (Get_repo repo_name) = None"
    and "raises w (Get_contents repo_name config_file_path) = None"
    and "json_loads w (decoded_content w repo_name config_file_path) = Inr context"
    and "raises w (Get_repo (user_org @ ''/.github'')) = Some GithubException"
  shows "get_config c s w repo_name directory user_org tok =
           (Inr context, [Get_repo repo_name, Get_contents repo_name config_file_path,
                          Get_repo (user_org @ ''/.github'')])"
  using assms(1,3,4,5,6) unfolding get_config_def assms(2) [symmetric] Let_def
  by (simp add: and_then_def lift_def perform_ok perform_raises)

lemma get_config_no_user_config:
  assumes "get_git_client c s tok = Inr client"
    and "config_file_path =
          (if directory \<noteq> [] then os_path_join directory [''cookiecutter.json'']
           else ''cookiecutter.json'')"
    and "raises w (Get_repo repo_name) = None"
    and "raises w (Get_contents repo_name config_file_path) = None"
    and "json_loads w (decoded_content w repo_name config_file_path) = Inr context"
    and "raises w (Get_repo (user_org @ ''/.github'')) = None"
    and "raises w (Get_contents (user_org @ ''/.github'')
            (os_path_join ''cookiecutter'' [repo_name, config_file_path])) = Some GithubException"
  shows "get_config c s w repo_name directory user_org tok =
           (Inr context, [Get_repo repo_name, Get_contents repo_name config_file_path,
                          Get_repo (user_org @ ''/.github''),
                          Get_contents (user_org @ ''/.github'')
                            (os_path_join ''cookiecutter'' [repo_name, config_file_path])])"
  using assms(1,3,4,5,6,7) unfolding get_config_def assms(2) [symmetric] Let_def
  by (simp add: and_then_def lift_def perform_ok perform_raises)

lemma get_config_with_overrides:
  assumes "get_git_client c s tok = Inr client"
    and "config_file_path =
          (if directory \<noteq> [] then os_path_join directory [''cookiecutter.json'']
           else ''cookiecutter.json'')"
    and "raises w (Get_repo repo_name) = None"
    and "raises w (Get_contents repo_name config_file_path) = None"
    and "json_loads w (decoded_content w repo_name config_file_path) = Inr context"
    and "raises w (Get_repo (user_org @ ''/.github'')) = None"
    and "raises w (Get_contents (user_org @ ''/.github'')
            (os_path_join ''cookiecutter'' [repo_name, config_file_path])) = None"
    and "json_loads w (decoded_content w (user_org @ ''/.github'')
            (os_path_join ''cookiecutter'' [repo_name, config_file_path])) = Inr user_defaults"
  shows "fst (get_config c s w repo_name directory user_org tok) =
           Inr (apply_overwrites_to_context context user_defaults)"
  using assms(1,3,4,5,6,7,8) unfolding get_config_def assms(2) [symmetric] Let_def
  by (simp add: and_then_def lift_def perform_ok perform_raises)

text \<open>
  A session without a document does reach GitHub: once the token is decrypted, the
  first effect of the form end point is the request for the template's repository.
\<close>

lemma and_then_lift_Inr: "and_then (lift (Inr x)) f = f x"
  by (simp add: and_then_def lift_def split: prod.splits)

lemma and_then_first_effect:
  "snd m = e # tr0 \<Longrightarrow> \<exists>tr. snd (and_then m f) = e # tr"
  by (cases m) (auto simp: and_then_def split: sum.splits prod.splits)

lemma get_config_first_effect:
  assumes "get_git_client c s tok = Inr client"
  shows "\<exists>tr. snd (get_config c s w repo_name directory user_org tok) = Get_repo repo_name # tr"
proof -
  have p: "snd (perform w (Get_repo repo_name)) = Get_repo repo_name # []"
    by (simp add: perform_def split: option.splits)
  show ?thesis
    unfolding get_config_def assms and_then_lift_Inr
    by (rule and_then_first_effect [OF p])
qed

lemma form_first_call_fetches:
  assumes "cc_context details = []" and "get_git_client c s (token details) = Inr client"
  shows "\<exists>tr. snd (form c s w rv details) = Get_repo (tpl_repo (template details)) # tr"
proof -
  obtain tr where g: "snd (get_config c s w (tpl_repo (template details))
      (tpl_directory (template details)) (org details) (token details))
    = Get_repo (tpl_repo (template details)) # tr"
    using get_config_first_effect [OF assms(2)] by blast
  show ?thesis
    unfolding form_def assms(1)
    by (simp only: refl if_True) (rule and_then_first_effect [OF g])
qed

text \<open>
  C9. When the template's document is fetched and parsed, and either the \<open>.github\<close>
  repository of the organisation or the defaults file in it is not there (GitHub
  answers with a \<open>GithubException\<close>), \<open>get_config\<close> returns the template's document
  as it was parsed, and raises nothing.
\<close>

theorem get_config_without_overrides:
  assumes "get_git_client c s tok = Inr client"
    and "config_file_path =
          (if directory \<noteq> [] then os_path_join directory [''cookiecutter.json'']
           else ''cookiecutter.json'')"
    and "raises w (Get_repo repo_name) = None"
    and "raises w (Get_contents repo_name config_file_path) = None"
    and "json_loads w (decoded_content w repo_name config_file_path) = Inr context"
    and "raises w (Get_repo (user_org @ ''/.github'')) = Some GithubException
         \<or> raises w (Get_repo (user_org @ ''/.github'')) = None
           \<and> raises w (Get_contents (user_org @ ''/.github'')
                (os_path_join ''cookiecutter'' [repo_name, config_file_path]))
              = Some GithubException"
  shows "fst (get_config c s w repo_name directory user_org tok) = Inr context"
  using assms(6)
proof
  assume "raises w (Get_repo (user_org @ ''/.github'')) = Some GithubException"
  with assms(1-5) show ?thesis
    by (simp add: get_config_no_config_repo)
next
  assume "raises w (Get_repo (user_org @ ''/.github'')) = None
           \<and> raises w (Get_contents (user_org @ ''/.github'')
                (os_path_join ''cookiecutter'' [repo_name, config_file_path]))
              = Some GithubException"
  with assms(1-5) show ?thesis
    by (simp add: get_config_no_user_config)
qed


theorem get_config_without_overrides_witness:
  "fst (get_config example_crypto example_settings example_world
          ''audreyr/cookiecutter-pypackage'' [] ''acme'' example_token)
     = Inr [(''project_name'', Raw_str [Text ''My App''])]
   \<and> fst (get_config example_crypto example_settings
          (example_world\<lparr>raises := (\<lambda>e. if e = Get_contents ''acme/.github''
                ''cookiecutter/audreyr/cookiecutter-pypackage/cookiecutter.json''
              then Some GithubException else None)\<rparr>)
          ''audreyr/cookiecutter-pypackage'' [] ''acme'' example_token)
     = Inr [(''project_name'', Raw_str [Text ''My App''])]"
  using get_config_without_overrides
      [OF example_get_git_client, of "''cookiecutter.json''" "[]" example_world
          "''audreyr/cookiecutter-pypackage''" "[(''project_name'', Raw_str [Text ''My App''])]"
          "''acme''"]
    get_config_without_overrides
      [OF example_get_git_client, of "''cookiecutter.json''" "[]"
          "example_world\<lparr>raises := (\<lambda>e. if e = Get_contents ''acme/.github''
                ''cookiecutter/audreyr/cookiecutter-pypackage/cookiecutter.json''
              then Some GithubException else None)\<rparr>"
          "''audreyr/cookiecutter-pypackage''" "[(''project_name'', Raw_str [Text ''My App''])]"
          "''acme''"]
  by (simp add: example_world_def)

subsection \<open>Merging the overrides\<close>

lemma apply_overwrites_keys:
  "map fst (apply_overwrites_to_context base overrides) = map fst base"
proof (induction overrides arbitrary: base)
  case Nil
  show ?case by simp
next
  case (Cons p overrides)
  obtain variable overwrite where p: "p = (variable, overwrite)"
    by (cases p)
  show ?case
  proof (cases "map_of base variable")
    case None
    with p Cons.IH show ?thesis by simp
  next
    case (Some v)
    then have "variable \<in> fst ` set base"
      by (auto dest: map_of_SomeD intro: rev_image_eqI)
    with p Some Cons.IH [of "AList.update variable overwrite base"] show ?thesis
      by (simp add: update_keys)
  qed
qed

lemma apply_overwrites_map_of:
  "distinct (map fst overrides) \<Longrightarrow>
   map_of (apply_overwrites_to_context base overrides) k =
     (if map_of base k = None then None
      else case map_of overrides k of None \<Rightarrow> map_of base k | Some v \<Rightarrow> Some v)"
proof (induction overrides arbitrary: base)
  case Nil
  show ?case by simp
next
  case (Cons p overrides)
  obtain variable overwrite where p: "p = (variable, overwrite)"
    by (cases p)
  from Cons.prems p have d: "distinct (map fst overrides)"
    and fresh: "variable \<notin> fst ` set overrides"
    by simp_all
  from fresh have none: "map_of overrides variable = None"
    by (simp add: map_of_eq_None_iff)
  show ?case
    using Cons.IH [OF d] p none
    by (auto simp: update_conv' split: option.splits)
qed

lemma three_keys:
  "map fst xs = [a, b, c] \<Longrightarrow> \<exists>x y z. xs = [(a, x), (b, y), (c, z)]"
  by (auto simp: map_eq_Cons_conv)

text \<open>
  C7. When the template's document and the organisation's overrides (with distinct
  keys, as a JSON object has) are both fetched, \<open>get_config\<close> returns a document
  that has the keys of the base in their order, gives a key that occurs in both the
  value of the override, leaves a key without an override as it was and adds no key.
  Merging \<open>{"b": "X"}\<close> into \<open>{"a": "1", "b": "2", "c": "3"}\<close> this way gives
  \<open>{"a": "1", "b": "X", "c": "3"}\<close>.
\<close>

theorem get_config_merges_overrides:
  assumes "get_git_client c s tok = Inr client"
    and "config_file_path =
          (if directory \<noteq> [] then os_path_join directory [''cookiecutter.json'']
           else ''cookiecutter.json'')"
    and "raises w (Get_repo repo_name) = None"
    and "raises w (Get_contents repo_name config_file_path) = None"
    and "json_loads w (decoded_content w repo_name config_file_path) = Inr base"
    and "raises w (Get_repo (user_org @ ''/.github'')) = None"
    and "raises w (Get_contents (user_org @ ''/.github'')
            (os_path_join ''cookiecutter'' [repo_name, config_file_path])) = None"
    and "json_loads w (decoded_content w (user_org @ ''/.github'')
            (os_path_join ''cookiecutter'' [repo_name, config_file_path])) = Inr overrides"
    and "distinct (map fst overrides)"
  shows "\<exists>merged.
           fst (get_config c s w repo_name directory user_org tok) = Inr merged
         \<and> map fst merged = map fst base
         \<and> (\<forall>k v. map_of base k \<noteq> None \<and> map_of overrides k = Some v \<longrightarrow>
               map_of merged k = Some v)
         \<and> (\<forall>k. map_of overrides k = None \<longrightarrow> map_of merged k = map_of base k)
         \<and> (\<forall>k. map_of base k = None \<longrightarrow> map_of merged k = None)"
proof (intro exI conjI allI impI)
  show "fst (get_config c s w repo_name directory user_org tok)
      = Inr (apply_overwrites_to_context base overrides)"
    using assms(1-8) by (rule get_config_with_overrides)
next
  show "map fst (apply_overwrites_to_context base overrides) = map fst base"
    by (rule apply_overwrites_keys)
next
  fix k v
  assume a: "map_of base k \<noteq> None \<and> map_of overrides k = Some v"
  then have b: "map_of base k \<noteq> None" and o: "map_of overrides k = Some v"
    by simp_all
  show "map_of (apply_overwrites_to_context base overrides) k = Some v"
    by (simp only: apply_overwrites_map_of [OF assms(9)] b o if_False option.case)
next
  fix k
  assume o: "map_of overrides k = None"
  show "map_of (apply_overwrites_to_context base overrides) k = map_of base k"
    by (simp only: apply_overwrites_map_of [OF assms(9)] o option.case) simp
next
  fix k
  assume b: "map_of base k = None"
  show "map_of (apply_overwrites_to_context base overrides) k = None"
    by (simp only: apply_overwrites_map_of [OF assms(9)] b) simp
qed

theorem get_config_merges_overrides_witness:
  "fst (get_config example_crypto example_settings example_merge_world
          ''audreyr/cookiecutter-pypackage'' [] ''acme'' example_token)
     = Inr [(''a'', ''1''), (''b'', ''X''), (''c'', ''3'')]"
proof -
  have path: "''cookiecutter.json'' =
      (if ([] :: string) \<noteq> [] then os_path_join [] [''cookiecutter.json'']
       else ''cookiecutter.json'')"
    by simp
  have r1: "raises example_merge_world (Get_repo ''audreyr/cookiecutter-pypackage'') = None"
    by (simp add: example_merge_world_def)
  have r2: "raises example_merge_world
      (Get_contents ''audreyr/cookiecutter-pypackage'' ''cookiecutter.json'') = None"
    by (simp add: example_merge_world_def)
  have j1: "json_loads example_merge_world
      (decoded_content example_merge_world ''audreyr/cookiecutter-pypackage''
         ''cookiecutter.json'')
      = Inr [(''a'', ''1''), (''b'', ''2''), (''c'', ''3'')]"
    by (simp add: example_merge_world_def)
  have r3: "raises example_merge_world (Get_repo (''acme'' @ ''/.github'')) = None"
    by (simp add: example_merge_world_def)
  have r4: "raises example_merge_world (Get_contents (''acme'' @ ''/.github'')
      (os_path_join ''cookiecutter'' [''audreyr/cookiecutter-pypackage'', ''cookiecutter.json'']))
      = None"
    by (simp add: example_merge_world_def)
  have j2: "json_loads example_merge_world
      (decoded_content example_merge_world (''acme'' @ ''/.github'')
         (os_path_join ''cookiecutter''
            [''audreyr/cookiecutter-pypackage'', ''cookiecutter.json'']))
      = Inr [(''b'', ''X'')]"
    by (simp add: example_merge_world_def)
  have d: "distinct (map fst [(''b'', ''X'')])"
    by simp
  obtain merged where g: "fst (get_config example_crypto example_settings example_merge_world
          ''audreyr/cookiecutter-pypackage'' [] ''acme'' example_token) = Inr merged"
    and keys: "map fst merged = map fst [(''a'', ''1''), (''b'', ''2''), (''c'', ''3'')]"
    and both: "\<forall>k v. map_of [(''a'', ''1''), (''b'', ''2''), (''c'', ''3'')] k \<noteq> None
                 \<and> map_of [(''b'', ''X'')] k = Some v \<longrightarrow> map_of merged k = Some v"
    and only_base: "\<forall>k. map_of [(''b'', ''X'')] k = None \<longrightarrow>
                 map_of merged k = map_of [(''a'', ''1''), (''b'', ''2''), (''c'', ''3'')] k"
    using get_config_merges_overrides
            [OF example_get_git_client path r1 r2 j1 r3 r4 j2 d]
    by blast
  from keys obtain x y z where m: "merged = [(''a'', x), (''b'', y), (''c'', z)]"
    using three_keys [of merged "''a''" "''b''" "''c''"] by auto
  from both [rule_format, of "''b''" "''X''"] m have "y = ''X''"
    by simp
  moreover from only_base [rule_format, of "''a''"] m have "x = ''1''"
    by simp
  moreover from only_base [rule_format, of "''c''"] m have "z = ''3''"
    by simp
  ultimately show ?thesis
    using g m by simp
qed

end
